theory Spec2Isabelle
  imports Complex_Main "HOL-Library.Multiset"
begin

section \<open>ETL of retail sales into a star schema: the data model\<close>

text \<open>
  The program (\<^verbatim>\<open>etl_pyspark.py\<close>) extracts one flat dataset from the operational
  store, cleanses it in \<^verbatim>\<open>transformar_dados\<close>, and loads four dimensions and a fact
  table in \<^verbatim>\<open>carregar_dados\<close>. A DataFrame is modelled as the list of its rows; the
  order of the list is the (unspecified) order in which the engine holds the rows. Every
  column is nullable, so every field is an \<open>option\<close>, with \<open>None\<close> for SQL null.
  Identifiers and quantities are integers, prices and costs exact decimals (\<open>rat\<close>),
  texts are byte strings (UTF-8).
\<close>

subsection \<open>Calendar dates\<close>

datatype date = Date (year: nat) (month: nat) (dayofmonth: nat)

definition quarter :: "date \<Rightarrow> nat" where
  "quarter d = (month d - 1) div 3 + 1"

definition leap_year :: "nat \<Rightarrow> bool" where
  "leap_year y = (if y mod 400 = 0 then True else if y mod 100 = 0 then False else y mod 4 = 0)"

definition days_in_month :: "nat \<Rightarrow> nat \<Rightarrow> nat" where
  "days_in_month y m =
     (if m = 2 then (if leap_year y then 29 else 28)
      else if m = 4 \<or> m = 6 \<or> m = 9 \<or> m = 11 then 30
      else 31)"

definition digit_val :: "char \<Rightarrow> nat option" where
  "digit_val c =
     (let n = of_char c :: nat in if 48 \<le> n \<and> n \<le> 57 then Some (n - 48) else None)"

fun digits_val :: "nat \<Rightarrow> string \<Rightarrow> nat option" where
  "digits_val acc [] = Some acc"
| "digits_val acc (c # cs) =
     (case digit_val c of None \<Rightarrow> None | Some v \<Rightarrow> digits_val (10 * acc + v) cs)"

text \<open>
  \<^verbatim>\<open>f.to_date(col, "yyyy-MM-dd")\<close>: the text is a date only when it is four digits, a
  dash, two digits, a dash and two digits, and names a day of the calendar; anything else
  gives null. A null input gives null.
\<close>

definition parse_yyyy_MM_dd :: "string \<Rightarrow> date option" where
  "parse_yyyy_MM_dd s =
     (if length s = 10 \<and> s ! 4 = CHR ''-'' \<and> s ! 7 = CHR ''-'' then
        (case (digits_val 0 (take 4 s), digits_val 0 (take 2 (drop 5 s)),
               digits_val 0 (drop 8 s)) of
           (Some y, Some m, Some d) \<Rightarrow>
             (if 1 \<le> y \<and> 1 \<le> m \<and> m \<le> 12 \<and> 1 \<le> d \<and> d \<le> days_in_month y m
              then Some (Date y m d) else None)
         | _ \<Rightarrow> None)
      else None)"

definition to_date :: "string option \<Rightarrow> date option" where
  "to_date c = (case c of None \<Rightarrow> None | Some s \<Rightarrow> parse_yyyy_MM_dd s)"

subsection \<open>Rows\<close>

text \<open>
  The columns of the extraction query, in its order. The type of \<open>data_venda\<close> is a
  parameter: text as extracted, a \<open>date\<close> after \<^verbatim>\<open>to_date\<close>.
\<close>

record 'd linha =
  id_venda :: "int option"
  data_venda :: "'d option"
  id_produto :: "int option"
  qtd_vendida :: "int option"
  preco_venda :: "rat option"
  nome_produto :: "string option"
  nome_categoria_produto :: "string option"
  id_cliente :: "int option"
  nome_cliente :: "string option"
  idade :: "int option"
  genero :: "string option"
  nome_categoria_cliente :: "string option"
  id_localidade :: "int option"
  cidade :: "string option"
  estado :: "string option"
  regiao :: "string option"
  custo_compra_unitario :: "rat option"

text \<open>The row after \<^verbatim>\<open>withColumn("valor_total", ...)\<close>.\<close>

record linha_total = "date linha" +
  valor_total :: "rat option"

record dim_cliente =
  dc_id_cliente :: "int option"
  dc_nome_cliente :: "string option"
  dc_idade :: "int option"
  dc_genero :: "string option"
  dc_nome_categoria_cliente :: "string option"

record dim_produto =
  dp_id_produto :: "int option"
  dp_nome_produto :: "string option"
  dp_nome_categoria_produto :: "string option"

record dim_localidade =
  dl_id_localidade :: "int option"
  dl_cidade :: "string option"
  dl_estado :: "string option"
  dl_regiao :: "string option"

record dim_tempo =
  dt_data_venda :: "date option"
  ano :: "nat option"
  mes :: "nat option"
  dia :: "nat option"
  trimestre :: "nat option"

section \<open>The transformer\<close>

subsection \<open>Column functions of the engine\<close>

text \<open>
  The aggregate \<^verbatim>\<open>median\<close>: the middle value of the sorted column, the mean of the two
  middle values when their number is even, null on an empty column.
\<close>

definition median :: "int list \<Rightarrow> rat option" where
  "median xs =
     (let s = sort xs; n = length s in
      if n = 0 then None
      else if odd n then Some (of_int (s ! (n div 2)))
      else Some ((of_int (s ! (n div 2 - 1)) + of_int (s ! (n div 2))) / 2))"

text \<open>\<^verbatim>\<open>df.select("idade").na.drop()\<close>: the non-null values of a column.\<close>

definition na_drop_col :: "'a option list \<Rightarrow> 'a list" where
  "na_drop_col c = [a. Some a \<leftarrow> c]"

text \<open>Python's \<^verbatim>\<open>int(x)\<close> on a number: truncation towards zero.\<close>

definition py_int :: "rat \<Rightarrow> int" where
  "py_int q = (if 0 \<le> q then \<lfloor>q\<rfloor> else \<lceil>q\<rceil>)"

text \<open>\<^verbatim>\<open>na.fill\<close> on one column: a null becomes the given value.\<close>

definition fill :: "'a \<Rightarrow> 'a option \<Rightarrow> 'a option" where
  "fill v c = (case c of None \<Rightarrow> Some v | Some a \<Rightarrow> Some a)"

text \<open>
  The two literals that replace a null gender and a null product name, in UTF-8: the
  letter a with a tilde is the two bytes \<open>0xC3 0xA3\<close>.
\<close>

definition nao_informado :: string where
  "nao_informado = ''N'' @ [CHR 0xC3, CHR 0xA3] @ ''o informado''"

definition produto_nao_informado :: string where
  "produto_nao_informado = ''Produto n'' @ [CHR 0xC3, CHR 0xA3] @ ''o informado''"

text \<open>
  \<^verbatim>\<open>f.when(genero == "M", "Masculino").when(genero == "F", "Feminino").otherwise(genero)\<close>:
  a comparison with null is not true, so null falls through to \<^verbatim>\<open>otherwise\<close>.
\<close>

definition padroniza_genero :: "string option \<Rightarrow> string option" where
  "padroniza_genero g =
     (if g = Some ''M'' then Some ''Masculino''
      else if g = Some ''F'' then Some ''Feminino''
      else g)"

text \<open>\<^verbatim>\<open>f.upper\<close>, on the letters a to z; every other byte is kept.\<close>

definition upper_char :: "char \<Rightarrow> char" where
  "upper_char c =
     (let n = of_char c :: nat in if 97 \<le> n \<and> n \<le> 122 then char_of (n - 32) else c)"

definition upper :: "string option \<Rightarrow> string option" where
  "upper c = map_option (map upper_char) c"

text \<open>
  \<^verbatim>\<open>f.round(x, 2)\<close> on an exact decimal: the nearest multiple of \<open>1/100\<close>, a tie going
  away from zero (HALF_UP).
\<close>

definition round_half_up :: "nat \<Rightarrow> rat \<Rightarrow> rat" where
  "round_half_up k x = sgn x * of_int \<lfloor>\<bar>x\<bar> * 10 ^ k + 1 / 2\<rfloor> / 10 ^ k"

text \<open>\<^verbatim>\<open>f.col("qtd_vendida") * f.col("preco_venda")\<close>: null when either is null.\<close>

definition vezes :: "int option \<Rightarrow> rat option \<Rightarrow> rat option" where
  "vezes q p =
     (case q of None \<Rightarrow> None
      | Some a \<Rightarrow> (case p of None \<Rightarrow> None | Some b \<Rightarrow> Some (of_int a * b)))"

subsection \<open>The steps of \<^verbatim>\<open>transformar_dados\<close>\<close>

definition idade_mediana :: "'d linha list \<Rightarrow> rat option" where
  "idade_mediana df = median (na_drop_col (map idade df))"

definition valor_idade :: "'d linha list \<Rightarrow> int" where
  "valor_idade df = (case idade_mediana df of Some m \<Rightarrow> py_int m | None \<Rightarrow> 35)"

definition na_fill :: "int \<Rightarrow> 'd linha \<Rightarrow> 'd linha" where
  "na_fill v r =
     r\<lparr>idade := fill v (idade r),
       genero := fill nao_informado (genero r),
       nome_produto := fill produto_nao_informado (nome_produto r),
       custo_compra_unitario := fill 0 (custo_compra_unitario r)\<rparr>"

definition com_genero :: "'d linha \<Rightarrow> 'd linha" where
  "com_genero r = r\<lparr>genero := padroniza_genero (genero r)\<rparr>"

definition com_estado :: "'d linha \<Rightarrow> 'd linha" where
  "com_estado r = r\<lparr>estado := upper (estado r)\<rparr>"

definition com_data_venda :: "string linha \<Rightarrow> date linha" where
  "com_data_venda r =
     \<lparr>id_venda = id_venda r, data_venda = to_date (data_venda r),
      id_produto = id_produto r, qtd_vendida = qtd_vendida r,
      preco_venda = preco_venda r, nome_produto = nome_produto r,
      nome_categoria_produto = nome_categoria_produto r, id_cliente = id_cliente r,
      nome_cliente = nome_cliente r, idade = idade r, genero = genero r,
      nome_categoria_cliente = nome_categoria_cliente r,
      id_localidade = id_localidade r, cidade = cidade r, estado = estado r,
      regiao = regiao r, custo_compra_unitario = custo_compra_unitario r\<rparr>"

definition com_valor_total :: "date linha \<Rightarrow> linha_total" where
  "com_valor_total r =
     linha.extend r
       \<lparr>valor_total =
          map_option (round_half_up 2) (vezes (qtd_vendida r) (preco_venda r))\<rparr>"

definition sel_cliente :: "linha_total \<Rightarrow> dim_cliente" where
  "sel_cliente r =
     \<lparr>dc_id_cliente = id_cliente r, dc_nome_cliente = nome_cliente r,
      dc_idade = idade r, dc_genero = genero r,
      dc_nome_categoria_cliente = nome_categoria_cliente r\<rparr>"

definition sel_produto :: "linha_total \<Rightarrow> dim_produto" where
  "sel_produto r =
     \<lparr>dp_id_produto = id_produto r, dp_nome_produto = nome_produto r,
      dp_nome_categoria_produto = nome_categoria_produto r\<rparr>"

definition sel_localidade :: "linha_total \<Rightarrow> dim_localidade" where
  "sel_localidade r =
     \<lparr>dl_id_localidade = id_localidade r, dl_cidade = cidade r,
      dl_estado = estado r, dl_regiao = regiao r\<rparr>"

definition com_calendario :: "date option \<Rightarrow> dim_tempo" where
  "com_calendario d =
     \<lparr>dt_data_venda = d, ano = map_option year d, mes = map_option month d,
      dia = map_option dayofmonth d, trimestre = map_option quarter d\<rparr>"

text \<open>
  \<^verbatim>\<open>transformar_dados\<close>, statement by statement. \<^verbatim>\<open>distinct()\<close> is \<open>remdups\<close>:
  one copy of every row, nulls comparing equal.
\<close>

definition transformar_dados ::
  "string linha list \<Rightarrow>
   dim_cliente list \<times> dim_produto list \<times> dim_localidade list \<times> dim_tempo list \<times>
   linha_total list" where
  "transformar_dados df0 =
     (let df1 = map (na_fill (valor_idade df0)) df0;
          df2 = map com_genero df1;
          df3 = map com_estado df2;
          df4 = map com_data_venda df3;
          df5 = filter (\<lambda>r. data_venda r \<noteq> None) df4;
          df = map com_valor_total df5;
          dim_cliente = remdups (map sel_cliente df);
          dim_produto = remdups (map sel_produto df);
          dim_localidade = remdups (map sel_localidade df);
          dim_tempo = map com_calendario (remdups (map data_venda df))
      in (dim_cliente, dim_produto, dim_localidade, dim_tempo, df))"

section \<open>The loader\<close>

subsection \<open>The warehouse\<close>

text \<open>
  Modelled from the spec: the warehouse tables, whose declarations are not part of the
  source. The warehouse, not the pipeline, assigns the surrogate key of a dimension row
  (an auto-incrementing column): a dimension table read back has, besides the columns
  written, the surrogate key of each row, here its position in the table, from 1.
\<close>

record dim_cliente_sk = dim_cliente +
  sk_cliente :: nat

record dim_produto_sk = dim_produto +
  sk_produto :: nat

record dim_localidade_sk = dim_localidade +
  sk_localidade :: nat

record dim_tempo_sk = dim_tempo +
  sk_tempo :: nat

record fato_vendas =
  fv_sk_cliente :: nat
  fv_sk_produto :: nat
  fv_sk_localidade :: nat
  fv_sk_tempo :: nat
  fv_id_venda :: "int option"
  fv_qtd_vendida :: "int option"
  fv_preco_venda :: "rat option"
  fv_valor_total :: "rat option"
  fv_custo_compra_unitario :: "rat option"

datatype tabela = Tab_dim_cliente | Tab_dim_produto | Tab_dim_localidade | Tab_dim_tempo
  | Tab_fato_vendas

datatype modo = Overwrite | Append

datatype acesso = Write tabela modo | Read tabela

text \<open>
  The state of the warehouse: the contents of its five tables, and the accesses made to
  it so far, oldest first.
\<close>

record dw =
  tab_dim_cliente :: "dim_cliente list"
  tab_dim_produto :: "dim_produto list"
  tab_dim_localidade :: "dim_localidade list"
  tab_dim_tempo :: "dim_tempo list"
  tab_fato_vendas :: "fato_vendas list"
  acessos :: "acesso list"

text \<open>\<^verbatim>\<open>write.jdbc(..., mode=m)\<close> on the contents of one table.\<close>

definition gravar :: "modo \<Rightarrow> 'a list \<Rightarrow> 'a list \<Rightarrow> 'a list" where
  "gravar m novo antigo = (case m of Overwrite \<Rightarrow> novo | Append \<Rightarrow> antigo @ novo)"

definition write_dim_cliente :: "modo \<Rightarrow> dim_cliente list \<Rightarrow> dw \<Rightarrow> dw" where
  "write_dim_cliente m d w =
     w\<lparr>tab_dim_cliente := gravar m d (tab_dim_cliente w),
       acessos := acessos w @ [Write Tab_dim_cliente m]\<rparr>"

definition write_dim_produto :: "modo \<Rightarrow> dim_produto list \<Rightarrow> dw \<Rightarrow> dw" where
  "write_dim_produto m d w =
     w\<lparr>tab_dim_produto := gravar m d (tab_dim_produto w),
       acessos := acessos w @ [Write Tab_dim_produto m]\<rparr>"

definition write_dim_localidade :: "modo \<Rightarrow> dim_localidade list \<Rightarrow> dw \<Rightarrow> dw" where
  "write_dim_localidade m d w =
     w\<lparr>tab_dim_localidade := gravar m d (tab_dim_localidade w),
       acessos := acessos w @ [Write Tab_dim_localidade m]\<rparr>"

definition write_dim_tempo :: "modo \<Rightarrow> dim_tempo list \<Rightarrow> dw \<Rightarrow> dw" where
  "write_dim_tempo m d w =
     w\<lparr>tab_dim_tempo := gravar m d (tab_dim_tempo w),
       acessos := acessos w @ [Write Tab_dim_tempo m]\<rparr>"

definition write_fato_vendas :: "modo \<Rightarrow> fato_vendas list \<Rightarrow> dw \<Rightarrow> dw" where
  "write_fato_vendas m d w =
     w\<lparr>tab_fato_vendas := gravar m d (tab_fato_vendas w),
       acessos := acessos w @ [Write Tab_fato_vendas m]\<rparr>"

definition sk_dim_cliente :: "dim_cliente list \<Rightarrow> dim_cliente_sk list" where
  "sk_dim_cliente t = map (\<lambda>(i, r). dim_cliente.extend r \<lparr>sk_cliente = i\<rparr>) (enumerate 1 t)"

definition sk_dim_produto :: "dim_produto list \<Rightarrow> dim_produto_sk list" where
  "sk_dim_produto t = map (\<lambda>(i, r). dim_produto.extend r \<lparr>sk_produto = i\<rparr>) (enumerate 1 t)"

definition sk_dim_localidade :: "dim_localidade list \<Rightarrow> dim_localidade_sk list" where
  "sk_dim_localidade t =
     map (\<lambda>(i, r). dim_localidade.extend r \<lparr>sk_localidade = i\<rparr>) (enumerate 1 t)"

definition sk_dim_tempo :: "dim_tempo list \<Rightarrow> dim_tempo_sk list" where
  "sk_dim_tempo t = map (\<lambda>(i, r). dim_tempo.extend r \<lparr>sk_tempo = i\<rparr>) (enumerate 1 t)"

text \<open>\<^verbatim>\<open>spark.read.jdbc\<close> of one dimension table: its rows with their surrogate keys.\<close>

definition read_dim_cliente :: "dw \<Rightarrow> dim_cliente_sk list \<times> dw" where
  "read_dim_cliente w =
     (sk_dim_cliente (tab_dim_cliente w), w\<lparr>acessos := acessos w @ [Read Tab_dim_cliente]\<rparr>)"

definition read_dim_produto :: "dw \<Rightarrow> dim_produto_sk list \<times> dw" where
  "read_dim_produto w =
     (sk_dim_produto (tab_dim_produto w), w\<lparr>acessos := acessos w @ [Read Tab_dim_produto]\<rparr>)"

definition read_dim_localidade :: "dw \<Rightarrow> dim_localidade_sk list \<times> dw" where
  "read_dim_localidade w =
     (sk_dim_localidade (tab_dim_localidade w),
      w\<lparr>acessos := acessos w @ [Read Tab_dim_localidade]\<rparr>)"

definition read_dim_tempo :: "dw \<Rightarrow> dim_tempo_sk list \<times> dw" where
  "read_dim_tempo w =
     (sk_dim_tempo (tab_dim_tempo w), w\<lparr>acessos := acessos w @ [Read Tab_dim_tempo]\<rparr>)"

subsection \<open>Key resolution\<close>

text \<open>
  \<^verbatim>\<open>a.join(b, "k")\<close>: the inner join on the column \<open>k\<close>. A pair of rows is in the
  result when the two keys are equal and not null (null equals nothing).
\<close>

definition join ::
  "('a \<Rightarrow> 'k option) \<Rightarrow> ('b \<Rightarrow> 'k option) \<Rightarrow> 'a list \<Rightarrow> 'b list \<Rightarrow> ('a \<times> 'b) list" where
  "join ka kb xs ys = [(x, y). x \<leftarrow> xs, y \<leftarrow> ys, ka x \<noteq> None \<and> ka x = kb y]"

text \<open>The four joins and the \<^verbatim>\<open>select\<close> of \<^verbatim>\<open>carregar_dados\<close>.\<close>

definition fato_vendas_de ::
  "linha_total list \<Rightarrow> dim_cliente_sk list \<Rightarrow> dim_produto_sk list \<Rightarrow>
   dim_localidade_sk list \<Rightarrow> dim_tempo_sk list \<Rightarrow> fato_vendas list" where
  "fato_vendas_de df_transformado dim_cliente_sk dim_produto_sk dim_localidade_sk dim_tempo_sk =
     (let j1 = join id_cliente dc_id_cliente df_transformado dim_cliente_sk;
          j2 = join (\<lambda>(r, c). id_produto r) dp_id_produto j1 dim_produto_sk;
          j3 = join (\<lambda>((r, c), p). id_localidade r) dl_id_localidade j2 dim_localidade_sk;
          j4 = join (\<lambda>(((r, c), p), l). data_venda r) dt_data_venda j3 dim_tempo_sk
      in map (\<lambda>((((r, c), p), l), t).
           \<lparr>fv_sk_cliente = sk_cliente c, fv_sk_produto = sk_produto p,
            fv_sk_localidade = sk_localidade l, fv_sk_tempo = sk_tempo t,
            fv_id_venda = id_venda r, fv_qtd_vendida = qtd_vendida r,
            fv_preco_venda = preco_venda r, fv_valor_total = valor_total r,
            fv_custo_compra_unitario = custo_compra_unitario r\<rparr>) j4)"

subsection \<open>\<^verbatim>\<open>carregar_dados\<close> and \<^verbatim>\<open>main\<close>\<close>

text \<open>
  The warehouse reached through \<^verbatim>\<open>url_dw\<close> and \<^verbatim>\<open>properties_dw\<close> is the state \<open>w\<close>;
  the function returns the state it leaves. The accesses are recorded in the order in
  which the statements issue them. The source raises nothing itself; a failure of the
  connection ends the run and is outside this model.
\<close>

definition carregar_dados ::
  "dim_cliente list \<Rightarrow> dim_produto list \<Rightarrow> dim_localidade list \<Rightarrow> dim_tempo list \<Rightarrow>
   linha_total list \<Rightarrow> dw \<Rightarrow> dw" where
  "carregar_dados dim_cliente dim_produto dim_localidade dim_tempo df_transformado w =
     (let w1 = write_dim_cliente Overwrite dim_cliente w;
          w2 = write_dim_produto Overwrite dim_produto w1;
          w3 = write_dim_localidade Overwrite dim_localidade w2;
          w4 = write_dim_tempo Overwrite dim_tempo w3;
          (dim_cliente_sk, w5) = read_dim_cliente w4;
          (dim_produto_sk, w6) = read_dim_produto w5;
          (dim_localidade_sk, w7) = read_dim_localidade w6;
          (dim_tempo_sk, w8) = read_dim_tempo w7;
          fato = fato_vendas_de df_transformado dim_cliente_sk dim_produto_sk
                   dim_localidade_sk dim_tempo_sk
      in write_fato_vendas Overwrite fato w8)"

text \<open>\<^verbatim>\<open>main\<close>, from the extracted dataset \<open>df_origem\<close> on.\<close>

definition main :: "string linha list \<Rightarrow> dw \<Rightarrow> dw" where
  "main df_origem w =
     (case transformar_dados df_origem of
        (dim_cliente, dim_produto, dim_localidade, dim_tempo, df_transformado) \<Rightarrow>
          carregar_dados dim_cliente dim_produto dim_localidade dim_tempo df_transformado w)"

subsection \<open>Names for the statements below\<close>

text \<open>
  A row of the source survives when its sale date parses; \<open>limpa v\<close> is what the
  row-wise steps of \<^verbatim>\<open>transformar_dados\<close> make of one row when the fill value of
  the age is \<open>v\<close>; \<open>res_dim_cliente\<close> to \<open>res_df\<close> are the five components of the
  returned tuple.
\<close>
definition data_valida :: "string linha \<Rightarrow> bool" where
  "data_valida r = (to_date (data_venda r) \<noteq> None)"

definition limpa :: "int \<Rightarrow> string linha \<Rightarrow> linha_total" where
  "limpa v r = com_valor_total (com_data_venda (com_estado (com_genero (na_fill v r))))"

definition res_dim_cliente :: "string linha list \<Rightarrow> dim_cliente list" where
  "res_dim_cliente df0 = (case transformar_dados df0 of (dc, dp, dl, dt, df) \<Rightarrow> dc)"
definition res_dim_produto :: "string linha list \<Rightarrow> dim_produto list" where
  "res_dim_produto df0 = (case transformar_dados df0 of (dc, dp, dl, dt, df) \<Rightarrow> dp)"
definition res_dim_localidade :: "string linha list \<Rightarrow> dim_localidade list" where
  "res_dim_localidade df0 = (case transformar_dados df0 of (dc, dp, dl, dt, df) \<Rightarrow> dl)"
definition res_dim_tempo :: "string linha list \<Rightarrow> dim_tempo list" where
  "res_dim_tempo df0 = (case transformar_dados df0 of (dc, dp, dl, dt, df) \<Rightarrow> dt)"
definition res_df :: "string linha list \<Rightarrow> linha_total list" where
  "res_df df0 = (case transformar_dados df0 of (dc, dp, dl, dt, df) \<Rightarrow> df)"

subsection \<open>Example datasets\<close>

definition linha_exemplo ::
  "int \<Rightarrow> string option \<Rightarrow> int \<Rightarrow> string \<Rightarrow> int option \<Rightarrow> string option \<Rightarrow> string linha" where
  "linha_exemplo v d c n i g =
     \<lparr>id_venda = Some v, data_venda = d, id_produto = Some 7, qtd_vendida = Some 3,
      preco_venda = Some (10005 / 1000), nome_produto = Some ''Caneta'',
      nome_categoria_produto = Some ''Papelaria'', id_cliente = Some c,
      nome_cliente = Some n, idade = i, genero = g,
      nome_categoria_cliente = Some ''Varejo'', id_localidade = Some 1,
      cidade = Some ''Recife'', estado = Some ''pe'', regiao = Some ''Nordeste'',
      custo_compra_unitario = None\<rparr>"

definition ex_idades :: "string linha list" where
  "ex_idades =
     [linha_exemplo 1 (Some ''2024-01-15'') 1 ''Ana'' (Some 20) (Some ''F''),
      linha_exemplo 2 (Some ''2024-01-16'') 2 ''Bruno'' None (Some ''M''),
      linha_exemplo 3 (Some ''2024-01-17'') 3 ''Caio'' (Some 40) None,
      linha_exemplo 4 (Some ''2024-01-18'') 4 ''Dora'' (Some 60) (Some ''X'')]"

definition ex_sem_idades :: "string linha list" where
  "ex_sem_idades =
     [linha_exemplo 1 (Some ''2024-01-15'') 1 ''Ana'' None (Some ''F''),
      linha_exemplo 2 (Some ''2024-01-16'') 2 ''Bruno'' None (Some ''M'')]"

definition ex_data_ruim :: "string linha list" where
  "ex_data_ruim =
     [linha_exemplo 1 (Some ''2024-01-15'') 1 ''Ana'' (Some 20) (Some ''F''),
      linha_exemplo 2 (Some ''2024-01-16'') 2 ''Bruno'' None (Some ''M''),
      linha_exemplo 3 (Some ''16/01/2024'') 3 ''Caio'' (Some 100) None]"

text \<open>Five rows of five customers, the third with a date that is not of the calendar.\<close>

definition ex_cinco :: "string linha list" where
  "ex_cinco =
     [linha_exemplo 1 (Some ''2024-01-15'') 1 ''Ana'' (Some 20) (Some ''F''),
      linha_exemplo 2 (Some ''2024-01-16'') 2 ''Bruno'' None (Some ''M''),
      linha_exemplo 3 (Some ''2024-02-30'') 3 ''Caio'' (Some 40) None,
      linha_exemplo 4 (Some ''2024-01-16'') 4 ''Dora'' (Some 60) (Some ''X''),
      linha_exemplo 5 (Some ''2024-03-01'') 5 ''Enzo'' (Some 33) (Some ''M'')]"

text \<open>Two sales of the customer 1, extracted with two different names.\<close>

definition ex_chave_repetida :: "string linha list" where
  "ex_chave_repetida =
     [linha_exemplo 1 (Some ''2024-01-15'') 1 ''Ana'' (Some 20) (Some ''F''),
      linha_exemplo 2 (Some ''2024-01-16'') 1 ''Ana B'' (Some 20) (Some ''F'')]"

text \<open>The same rows held in two ways, as lists of partitions.\<close>

definition ex_particoes_a :: "string linha list list" where
  "ex_particoes_a = [take 2 ex_cinco, drop 2 ex_cinco]"

definition ex_particoes_b :: "string linha list list" where
  "ex_particoes_b = [drop 4 ex_cinco, rev (take 3 ex_cinco), [ex_cinco ! 3]]"

text \<open>A warehouse with empty tables and no access yet.\<close>

definition dw_vazio :: dw where
  "dw_vazio =
     \<lparr>tab_dim_cliente = [], tab_dim_produto = [], tab_dim_localidade = [],
      tab_dim_tempo = [], tab_fato_vendas = [], acessos = []\<rparr>"

text \<open>The warehouse left by an earlier run.\<close>

definition dw_anterior :: dw where
  "dw_anterior = main ex_idades dw_vazio"

text \<open>
  A key is resolved in a dimension when it is not null and some row of the dimension
  has it; \<open>chaves_resolvidas\<close> says so of the four natural keys of a candidate row.
\<close>

type_synonym linha_resolvida =
  "(((linha_total \<times> dim_cliente_sk) \<times> dim_produto_sk) \<times> dim_localidade_sk) \<times> dim_tempo_sk"

definition casa :: "'k option \<Rightarrow> 'k option list \<Rightarrow> bool" where
  "casa k ks = (k \<noteq> None \<and> k \<in> set ks)"

definition chaves_resolvidas ::
  "dim_cliente_sk list \<Rightarrow> dim_produto_sk list \<Rightarrow> dim_localidade_sk list \<Rightarrow>
   dim_tempo_sk list \<Rightarrow> linha_total \<Rightarrow> bool" where
  "chaves_resolvidas dcs dps dls dts r =
     (casa (id_cliente r) (map dc_id_cliente dcs) \<and>
      casa (id_produto r) (map dp_id_produto dps) \<and>
      casa (id_localidade r) (map dl_id_localidade dls) \<and>
      casa (data_venda r) (map dt_data_venda dts))"

section \<open>The shape of the transformer's result\<close>

lemma data_venda_passos:
  "data_venda (com_data_venda (com_estado (com_genero (na_fill v r)))) = to_date (data_venda r)"
  by (simp add: com_data_venda_def com_estado_def com_genero_def na_fill_def)

lemma res_df_eq: "res_df df0 = map (limpa (valor_idade df0)) (filter data_valida df0)"
proof -
  have "filter (\<lambda>r. data_venda r \<noteq> None)
          (map com_data_venda (map com_estado (map com_genero (map (na_fill v) df0)))) =
        map (\<lambda>r. com_data_venda (com_estado (com_genero (na_fill v r)))) (filter data_valida df0)" for v
    by (simp add: filter_map comp_def data_venda_passos data_valida_def [abs_def] del: not_None_eq)
  then show ?thesis
    unfolding res_df_def transformar_dados_def Let_def prod.case
    by (simp only: map_map comp_def limpa_def [abs_def])
qed

lemma res_dim_cliente_eq: "res_dim_cliente df0 = remdups (map sel_cliente (res_df df0))"
  by (simp add: res_dim_cliente_def res_df_def transformar_dados_def Let_def)
lemma res_dim_produto_eq: "res_dim_produto df0 = remdups (map sel_produto (res_df df0))"
  by (simp add: res_dim_produto_def res_df_def transformar_dados_def Let_def)
lemma res_dim_localidade_eq: "res_dim_localidade df0 = remdups (map sel_localidade (res_df df0))"
  by (simp add: res_dim_localidade_def res_df_def transformar_dados_def Let_def)
lemma res_dim_tempo_eq: "res_dim_tempo df0 = map com_calendario (remdups (map data_venda (res_df df0)))"
  by (simp add: res_dim_tempo_def res_df_def transformar_dados_def Let_def)

lemma transformar_dados_eq:
  "transformar_dados df0 =
     (res_dim_cliente df0, res_dim_produto df0, res_dim_localidade df0, res_dim_tempo df0, res_df df0)"
  by (simp add: res_dim_cliente_def res_dim_produto_def res_dim_localidade_def res_dim_tempo_def
      res_df_def split: prod.splits)

lemma limpa_campos:
  "id_venda (limpa v r) = id_venda r"
  "data_venda (limpa v r) = to_date (data_venda r)"
  "id_produto (limpa v r) = id_produto r"
  "qtd_vendida (limpa v r) = qtd_vendida r"
  "preco_venda (limpa v r) = preco_venda r"
  "nome_produto (limpa v r) = fill produto_nao_informado (nome_produto r)"
  "nome_categoria_produto (limpa v r) = nome_categoria_produto r"
  "id_cliente (limpa v r) = id_cliente r"
  "nome_cliente (limpa v r) = nome_cliente r"
  "idade (limpa v r) = fill v (idade r)"
  "genero (limpa v r) = padroniza_genero (fill nao_informado (genero r))"
  "nome_categoria_cliente (limpa v r) = nome_categoria_cliente r"
  "id_localidade (limpa v r) = id_localidade r"
  "cidade (limpa v r) = cidade r"
  "estado (limpa v r) = upper (estado r)"
  "regiao (limpa v r) = regiao r"
  "custo_compra_unitario (limpa v r) = fill 0 (custo_compra_unitario r)"
  "valor_total (limpa v r) = map_option (round_half_up 2) (vezes (qtd_vendida r) (preco_venda r))"
  by (simp_all add: limpa_def com_valor_total_def linha.defs com_data_venda_def com_estado_def
      com_genero_def na_fill_def)

section \<open>The median of the ages\<close>

lemma length_filter_mono:
  "(\<And>x. x \<in> set xs \<Longrightarrow> P x \<Longrightarrow> Q x) \<Longrightarrow> length (filter P xs) \<le> length (filter Q xs)"
  by (induction xs) auto

lemma length_filter_sort: "length (filter P (sort xs)) = length (filter P xs)"
proof -
  have "mset (filter P (sort xs)) = mset (filter P xs)"
    by simp
  then have "size (mset (filter P (sort xs))) = size (mset (filter P xs))"
    by (rule arg_cong)
  then show ?thesis
    by (simp only: size_mset)
qed

lemma sort_Nil_iff: "sort xs = [] \<longleftrightarrow> xs = []"
  by (metis length_sort length_0_conv)

lemma sorted_filter_less:
  fixes s :: "int list"
  assumes "sorted s" and "k < length s"
  shows "length (filter (\<lambda>a. a < s ! k) s) \<le> k"
proof -
  have "\<forall>x \<in> set (drop k s). \<not> x < s ! k"
  proof
    fix x assume "x \<in> set (drop k s)"
    then obtain i where "i < length s - k" and "x = s ! (k + i)"
      by (auto simp: in_set_conv_nth)
    with assms have "s ! k \<le> s ! (k + i)"
      by (intro sorted_nth_mono) simp_all
    with \<open>x = s ! (k + i)\<close> show "\<not> x < s ! k" by simp
  qed
  then have "filter (\<lambda>a. a < s ! k) (drop k s) = []"
    by (simp add: filter_empty_conv)
  then have "filter (\<lambda>a. a < s ! k) s = filter (\<lambda>a. a < s ! k) (take k s)"
    using filter_append [of "\<lambda>a. a < s ! k" "take k s" "drop k s"] by simp
  moreover have "length (filter (\<lambda>a. a < s ! k) (take k s)) \<le> length (take k s)"
    by (rule length_filter_le)
  ultimately show ?thesis by simp
qed

lemma sorted_filter_greater:
  fixes s :: "int list"
  assumes "sorted s" and "k < length s"
  shows "length (filter (\<lambda>a. s ! k < a) s) \<le> length s - Suc k"
proof -
  have "\<forall>x \<in> set (take (Suc k) s). \<not> s ! k < x"
  proof
    fix x assume "x \<in> set (take (Suc k) s)"
    then obtain i where "i < Suc k" and "i < length s" and "x = s ! i"
      by (auto simp: in_set_conv_nth)
    with assms show "\<not> s ! k < x"
      using sorted_nth_mono [of s i k] by simp
  qed
  then have "filter (\<lambda>a. s ! k < a) (take (Suc k) s) = []"
    by (simp add: filter_empty_conv)
  then have "filter (\<lambda>a. s ! k < a) s = filter (\<lambda>a. s ! k < a) (drop (Suc k) s)"
    using filter_append [of "\<lambda>a. s ! k < a" "take (Suc k) s" "drop (Suc k) s"] by simp
  moreover have "length (filter (\<lambda>a. s ! k < a) (drop (Suc k) s)) \<le> length (drop (Suc k) s)"
    by (rule length_filter_le)
  ultimately show ?thesis by simp
qed

lemma median_None: "median xs = None \<longleftrightarrow> xs = []"
  by (cases "xs = []") (simp_all add: median_def Let_def sort_Nil_iff del: not_None_eq)

lemma median_halves:
  assumes "median xs = Some m"
  shows "2 * length (filter (\<lambda>a. of_int a < m) xs) \<le> length xs"
    and "2 * length (filter (\<lambda>a. m < of_int a) xs) \<le> length xs"
proof -
  define s where "s = sort xs"
  define n where "n = length xs"
  have srt: "sorted s" and len: "length s = n"
    by (simp_all add: s_def n_def)
  from assms have n0: "n \<noteq> 0"
    by (auto simp: median_def Let_def n_def sort_Nil_iff split: if_splits)
  have less: "length (filter (\<lambda>a. of_int a < m) s) \<le> n div 2
            \<and> length (filter (\<lambda>a. m < of_int a) s) \<le> n div 2"
  proof (cases "odd n")
    case True
    with assms n0 have m: "m = of_int (s ! (n div 2))"
      by (simp add: median_def Let_def s_def n_def sort_Nil_iff)
    have k: "n div 2 < length s" using n0 len by simp
    have "n - Suc (n div 2) = n div 2" using True by (auto elim: oddE)
    with sorted_filter_less [OF srt k] sorted_filter_greater [OF srt k] len
    show ?thesis by (simp add: m)
  next
    case False
    with assms n0 have m: "m = (of_int (s ! (n div 2 - 1)) + of_int (s ! (n div 2))) / 2"
      by (simp add: median_def Let_def s_def n_def sort_Nil_iff)
    from False n0 have n2: "2 \<le> n" by presburger
    have k: "n div 2 < length s" and k1: "n div 2 - 1 < length s"
      using n0 len by simp_all
    have ord: "s ! (n div 2 - 1) \<le> s ! (n div 2)"
      using sorted_nth_mono [OF srt _ k, of "n div 2 - 1"] by simp
    have "length (filter (\<lambda>a. of_int a < m) s) \<le> length (filter (\<lambda>a. a < s ! (n div 2)) s)"
    proof (rule length_filter_mono)
      fix x :: int assume "of_int x < m"
      with ord have "(of_int x :: rat) < of_int (s ! (n div 2))"
        by (simp add: m field_simps) 
      then show "x < s ! (n div 2)" by simp
    qed
    with sorted_filter_less [OF srt k] have a: "length (filter (\<lambda>a. of_int a < m) s) \<le> n div 2"
      by simp
    have "length (filter (\<lambda>a. m < of_int a) s) \<le> length (filter (\<lambda>a. s ! (n div 2 - 1) < a) s)"
    proof (rule length_filter_mono)
      fix x :: int assume "m < of_int x"
      with ord have "(of_int (s ! (n div 2 - 1)) :: rat) < of_int x"
        by (simp add: m field_simps)
      then show "s ! (n div 2 - 1) < x" by simp
    qed
    moreover have "n - Suc (n div 2 - 1) = n div 2"
      using False n2 by (auto elim!: evenE)
    ultimately have "length (filter (\<lambda>a. m < of_int a) s) \<le> n div 2"
      using sorted_filter_greater [OF srt k1] len by simp
    with a show ?thesis by simp
  qed
  have "length (filter (\<lambda>a. of_int a < m) xs) \<le> n div 2"
    using less by (simp add: s_def length_filter_sort)
  then show "2 * length (filter (\<lambda>a. of_int a < m) xs) \<le> length xs"
    by (simp add: n_def)
  have "length (filter (\<lambda>a. m < of_int a) xs) \<le> n div 2"
    using less by (simp add: s_def length_filter_sort)
  then show "2 * length (filter (\<lambda>a. m < of_int a) xs) \<le> length xs"
    by (simp add: n_def)
qed

lemma idade_res_df:
  "map idade (res_df df0) = map (\<lambda>r. fill (valor_idade df0) (idade r)) (filter data_valida df0)"
  by (simp add: res_df_eq limpa_campos)

lemma na_drop_col_Nil: "na_drop_col c = [] \<longleftrightarrow> (\<forall>x\<in>set c. x = None)"
  by (induction c) (auto simp: na_drop_col_def split: option.splits)

lemma idade_mediana_None: "idade_mediana df0 = None \<longleftrightarrow> (\<forall>r\<in>set df0. idade r = None)"
  by (simp add: idade_mediana_def median_None na_drop_col_Nil)

text \<open>
  C3: when some age is not null, every null age of a surviving row is filled with the
  median of all the non-null ages of the dataset, cut to an integer; at most half of
  the ages lie below the median and at most half above. With the ages 20, null, 40, 60
  the null becomes 40. When every age is null the fill value is the constant 35.
\<close>

theorem idade_nula_recebe_mediana:
  "((\<exists>r\<in>set df0. idade r \<noteq> None) \<longrightarrow>
      (\<exists>m. idade_mediana df0 = Some m
         \<and> 2 * length (filter (\<lambda>a. of_int a < m) (na_drop_col (map idade df0)))
             \<le> length (na_drop_col (map idade df0))
         \<and> 2 * length (filter (\<lambda>a. m < of_int a) (na_drop_col (map idade df0)))
             \<le> length (na_drop_col (map idade df0))
         \<and> map idade (res_df df0) =
             map (\<lambda>r. case idade r of None \<Rightarrow> Some (py_int m) | Some a \<Rightarrow> Some a)
               (filter data_valida df0)))
   \<and> ((\<forall>r\<in>set df0. idade r = None) \<longrightarrow>
        map idade (res_df df0) = map (\<lambda>r. Some 35) (filter data_valida df0))"
proof (intro conjI impI)
  assume "\<exists>r\<in>set df0. idade r \<noteq> None"
  then have "idade_mediana df0 \<noteq> None"
    by (simp add: idade_mediana_None del: not_None_eq)
  then obtain m where m: "idade_mediana df0 = Some m"
    by blast
  then have med: "median (na_drop_col (map idade df0)) = Some m"
    by (simp add: idade_mediana_def)
  have "map idade (res_df df0) =
          map (\<lambda>r. case idade r of None \<Rightarrow> Some (py_int m) | Some a \<Rightarrow> Some a)
            (filter data_valida df0)"
    by (simp add: idade_res_df valor_idade_def m fill_def)
  with m median_halves [OF med] show "\<exists>m. idade_mediana df0 = Some m
         \<and> 2 * length (filter (\<lambda>a. of_int a < m) (na_drop_col (map idade df0)))
             \<le> length (na_drop_col (map idade df0))
         \<and> 2 * length (filter (\<lambda>a. m < of_int a) (na_drop_col (map idade df0)))
             \<le> length (na_drop_col (map idade df0))
         \<and> map idade (res_df df0) =
             map (\<lambda>r. case idade r of None \<Rightarrow> Some (py_int m) | Some a \<Rightarrow> Some a)
               (filter data_valida df0)"
    by blast
next
  assume a: "\<forall>r\<in>set df0. idade r = None"
  then have "idade_mediana df0 = None"
    by (simp add: idade_mediana_None)
  then have "valor_idade df0 = 35"
    by (simp add: valor_idade_def)
  with a show "map idade (res_df df0) = map (\<lambda>r. Some 35) (filter data_valida df0)"
    by (simp add: idade_res_df fill_def)
qed

lemma ex_idades_mediana: "idade_mediana ex_idades = Some 40"
  by code_simp

lemma ex_idades_validas: "filter data_valida ex_idades = ex_idades"
  by code_simp

theorem idade_nula_recebe_mediana_witness:
  "(\<exists>r\<in>set ex_idades. idade r \<noteq> None)
   \<and> map idade ex_idades = [Some 20, None, Some 40, Some 60]
   \<and> map idade (res_df ex_idades) = [Some 20, Some 40, Some 40, Some 60]
   \<and> map idade ex_sem_idades = [None, None]
   \<and> map idade (res_df ex_sem_idades) = [Some 35, Some 35]"
proof -
  have h1: "\<exists>r\<in>set ex_idades. idade r \<noteq> None"
    by (simp add: ex_idades_def linha_exemplo_def)
  have h2: "\<forall>r\<in>set ex_sem_idades. idade r = None"
    by (simp add: ex_sem_idades_def linha_exemplo_def)
  from idade_nula_recebe_mediana [of ex_idades] h1
  obtain m where "idade_mediana ex_idades = Some m"
    and r: "map idade (res_df ex_idades) =
       map (\<lambda>r. case idade r of None \<Rightarrow> Some (py_int m) | Some a \<Rightarrow> Some a)
         (filter data_valida ex_idades)"
    by blast
  then have m: "m = 40"
    by (simp add: ex_idades_mediana)
  have a: "map idade (res_df ex_idades) = [Some 20, Some 40, Some 40, Some 60]"
    unfolding r m ex_idades_validas
    by (simp add: ex_idades_def linha_exemplo_def py_int_def)
  have v: "filter data_valida ex_sem_idades = ex_sem_idades"
    by code_simp
  from idade_nula_recebe_mediana [of ex_sem_idades] h2
  have "map idade (res_df ex_sem_idades) = map (\<lambda>r. Some 35) (filter data_valida ex_sem_idades)"
    by blast
  then have b: "map idade (res_df ex_sem_idades) = [Some 35, Some 35]"
    unfolding v by (simp add: ex_sem_idades_def)
  have c: "map idade ex_idades = [Some 20, None, Some 40, Some 60]"
    by (simp add: ex_idades_def linha_exemplo_def)
  have d: "map idade ex_sem_idades = [None, None]"
    by (simp add: ex_sem_idades_def linha_exemplo_def)
  from h1 a b c d show ?thesis by blast
qed

text \<open>
  C9: when every age of the dataset is null, the value that fills the ages is 35.
\<close>

theorem idade_toda_nula_35:
  assumes "\<forall>r\<in>set df0. idade r = None"
  shows "valor_idade df0 = 35 \<and> (\<forall>r\<in>set (res_df df0). idade r = Some 35)"
proof -
  from assms have "idade_mediana df0 = None"
    by (simp add: idade_mediana_None)
  then have v: "valor_idade df0 = 35"
    by (simp add: valor_idade_def)
  have "\<forall>r\<in>set (res_df df0). idade r = Some 35"
  proof
    fix r assume "r \<in> set (res_df df0)"
    then obtain s where "s \<in> set df0" and "r = limpa (valor_idade df0) s"
      by (auto simp: res_df_eq)
    with assms v show "idade r = Some 35"
      by (simp add: limpa_campos fill_def)
  qed
  with v show ?thesis by simp
qed

theorem idade_toda_nula_35_witness:
  "map idade ex_sem_idades = [None, None] \<and> valor_idade ex_sem_idades = 35
   \<and> list_all (\<lambda>r. idade r = Some 35) (res_df ex_sem_idades)
   \<and> length (res_df ex_sem_idades) = 2"
proof -
  have h: "\<forall>r\<in>set ex_sem_idades. idade r = None"
    by (simp add: ex_sem_idades_def linha_exemplo_def)
  have "length (res_df ex_sem_idades) = 2"
    by code_simp
  with idade_toda_nula_35 [OF h] show ?thesis
    by (simp add: list_all_iff) (simp add: ex_sem_idades_def linha_exemplo_def)
qed

lemma sort_mset_cong: "mset xs = mset ys \<Longrightarrow> sort xs = sort ys"
  by (rule properties_for_sort) simp_all

lemma median_mset_cong: "mset xs = mset ys \<Longrightarrow> median xs = median ys"
  by (simp add: median_def sort_mset_cong [of xs ys])

lemma na_drop_col_filter: "na_drop_col c = map the (filter (\<lambda>x. x \<noteq> None) c)"
  by (induction c) (auto simp: na_drop_col_def split: option.splits)

lemma na_drop_col_append: "na_drop_col (a @ b) = na_drop_col a @ na_drop_col b"
  by (simp add: na_drop_col_def)

lemma na_drop_col_mset_cong: "mset c = mset d \<Longrightarrow> mset (na_drop_col c) = mset (na_drop_col d)"
  by (simp add: na_drop_col_filter del: not_None_eq)

lemma valor_idade_mset_cong:
  assumes "mset df = mset df'"
  shows "valor_idade df = valor_idade df'"
proof -
  from assms have "mset (map idade df) = mset (map idade df')"
    by simp
  then have "median (na_drop_col (map idade df)) = median (na_drop_col (map idade df'))"
    by (intro median_mset_cong na_drop_col_mset_cong)
  then show ?thesis
    by (simp add: valor_idade_def idade_mediana_def)
qed

text \<open>
  C10: the median that fills the ages is taken over the ages of all extracted rows, those
  of the rows that the date validation removes afterwards included; the filled rows are
  the surviving ones.
\<close>

theorem mediana_inclui_linhas_descartadas:
  "valor_idade df0 =
     (case median (na_drop_col (map idade (filter data_valida df0)) @
                   na_drop_col (map idade (filter (\<lambda>r. \<not> data_valida r) df0))) of
        Some m \<Rightarrow> py_int m | None \<Rightarrow> 35)
   \<and> map idade (res_df df0) =
       map (\<lambda>r. fill (valor_idade df0) (idade r)) (filter data_valida df0)"
proof -
  have "mset (filter data_valida df0 @ filter (\<lambda>r. \<not> data_valida r) df0) = mset df0"
    by simp
  then have "mset (map idade (filter data_valida df0 @ filter (\<lambda>r. \<not> data_valida r) df0)) =
             mset (map idade df0)"
    by (simp only: mset_map)
  then have "median (na_drop_col (map idade (filter data_valida df0 @ filter (\<lambda>r. \<not> data_valida r) df0))) =
             median (na_drop_col (map idade df0))"
    by (intro median_mset_cong na_drop_col_mset_cong)
  then have "valor_idade df0 =
     (case median (na_drop_col (map idade (filter data_valida df0)) @
                   na_drop_col (map idade (filter (\<lambda>r. \<not> data_valida r) df0))) of
        Some m \<Rightarrow> py_int m | None \<Rightarrow> 35)"
    by (simp add: valor_idade_def idade_mediana_def na_drop_col_append)
  then show ?thesis
    by (simp add: idade_res_df)
qed

theorem mediana_inclui_linhas_descartadas_witness:
  "map idade ex_data_ruim = [Some 20, None, Some 100]
   \<and> map data_valida ex_data_ruim = [True, True, False]
   \<and> valor_idade ex_data_ruim = 60
   \<and> valor_idade (filter data_valida ex_data_ruim) = 20
   \<and> map idade (res_df ex_data_ruim) = [Some 20, Some 60]"
proof -
  have a: "map idade ex_data_ruim = [Some 20, None, Some 100]"
    by (simp add: ex_data_ruim_def linha_exemplo_def)
  have b: "map data_valida ex_data_ruim = [True, True, False]"
    by code_simp
  have c: "filter data_valida ex_data_ruim = take 2 ex_data_ruim"
    by code_simp
  have d: "valor_idade (filter data_valida ex_data_ruim) = 20"
    by code_simp
  have e: "filter (\<lambda>r. \<not> data_valida r) ex_data_ruim = drop 2 ex_data_ruim"
    by code_simp
  from mediana_inclui_linhas_descartadas [of ex_data_ruim]
  have v: "valor_idade ex_data_ruim =
     (case median (na_drop_col (map idade (take 2 ex_data_ruim)) @
                   na_drop_col (map idade (drop 2 ex_data_ruim))) of
        Some m \<Rightarrow> py_int m | None \<Rightarrow> 35)"
    and r: "map idade (res_df ex_data_ruim) =
       map (\<lambda>r. fill (valor_idade ex_data_ruim) (idade r)) (take 2 ex_data_ruim)"
    unfolding c e by blast+
  have v': "valor_idade ex_data_ruim = 60"
    unfolding v by (simp add: ex_data_ruim_def linha_exemplo_def na_drop_col_def median_def py_int_def)
  have "map idade (res_df ex_data_ruim) = [Some 20, Some 60]"
    unfolding r v' by (simp add: ex_data_ruim_def linha_exemplo_def fill_def)
  with a b d v' show ?thesis by blast
qed

section \<open>Gender\<close>

text \<open>
  C4: null repair followed by standardization is defined on every gender value: null
  gives the literal for "not informed", \<open>M\<close> and \<open>F\<close> give the two labels, every
  other text, the literal for "not informed" included, is kept; every surviving row
  carries the result.
\<close>

theorem genero_funcao_total:
  "genero (com_genero (na_fill v r)) =
     (case genero r of
        None \<Rightarrow> Some nao_informado
      | Some g \<Rightarrow>
          if g = ''M'' then Some ''Masculino''
          else if g = ''F'' then Some ''Feminino''
          else Some g)
   \<and> genero (com_genero (na_fill v (r\<lparr>genero := Some nao_informado\<rparr>))) = Some nao_informado
   \<and> map genero (res_df df0) =
       map (\<lambda>r. genero (com_genero (na_fill (valor_idade df0) r))) (filter data_valida df0)"
proof -
  have "map genero (res_df df0) =
       map (\<lambda>r. genero (com_genero (na_fill (valor_idade df0) r))) (filter data_valida df0)"
    by (simp add: res_df_eq limpa_campos com_genero_def na_fill_def)
  then show ?thesis
    by (simp add: com_genero_def na_fill_def fill_def padroniza_genero_def nao_informado_def
        split: option.splits)
qed

theorem genero_funcao_total_witness:
  "map genero ex_idades = [Some ''F'', Some ''M'', None, Some ''X'']
   \<and> map genero (res_df ex_idades) =
       [Some ''Feminino'', Some ''Masculino'', Some nao_informado, Some ''X'']"
proof -
  have a: "map genero ex_idades = [Some ''F'', Some ''M'', None, Some ''X'']"
    by (simp add: ex_idades_def linha_exemplo_def)
  have g: "genero (com_genero (na_fill v r)) =
     (case genero r of
        None \<Rightarrow> Some nao_informado
      | Some g \<Rightarrow>
          if g = ''M'' then Some ''Masculino''
          else if g = ''F'' then Some ''Feminino''
          else Some g)" for v and r :: "string linha"
    using genero_funcao_total [of v r ex_idades] by (rule conjunct1)
  have "map genero (res_df ex_idades) =
       map (\<lambda>r. genero (com_genero (na_fill (valor_idade ex_idades) r))) ex_idades"
    using genero_funcao_total [of 0 "hd ex_idades" ex_idades]
    by (simp add: ex_idades_validas)
  then have "map genero (res_df ex_idades) =
       [Some ''Feminino'', Some ''Masculino'', Some nao_informado, Some ''X'']"
    by (simp add: g) (simp add: ex_idades_def linha_exemplo_def)
  with a show ?thesis by simp
qed

section \<open>The total value\<close>

lemma round_half_up_grid: "\<exists>k::int. round_half_up n x = of_int k / 10 ^ n"
proof -
  have "sgn x = of_int (sgn \<lfloor>x\<rfloor>) \<or> sgn x = 1 \<or> sgn x = 0 \<or> sgn x = -1" 
    by (auto simp: sgn_if)
  then have "\<exists>j::int. sgn x = of_int j"
    by (metis of_int_0 of_int_1 of_int_minus)
  then obtain j :: int where "sgn x = of_int j" ..
  then have "round_half_up n x = of_int (j * \<lfloor>\<bar>x\<bar> * 10 ^ n + 1 / 2\<rfloor>) / 10 ^ n"
    by (simp add: round_half_up_def)
  then show ?thesis ..
qed

lemma round_half_up_near: "\<bar>round_half_up n x - x\<bar> \<le> 1 / (2 * 10 ^ n)"
proof -
  define y where "y = \<bar>x\<bar> * 10 ^ n"
  define f :: rat where "f = of_int \<lfloor>y + 1 / 2\<rfloor>"
  have f1: "f \<le> y + 1 / 2" and f2: "y + 1 / 2 < f + 1"
    unfolding f_def by linarith+
  then have d: "\<bar>f - y\<bar> \<le> 1 / 2"
    by linarith
  have x: "x = sgn x * (y / 10 ^ n)"
    by (simp add: y_def sgn_mult_abs)
  have "round_half_up n x - x = sgn x * (f / 10 ^ n) - sgn x * (y / 10 ^ n)"
    using x by (simp add: round_half_up_def f_def y_def)
  also have "\<dots> = sgn x * ((f - y) / 10 ^ n)"
    by (simp add: algebra_simps diff_divide_distrib)
  finally have "\<bar>round_half_up n x - x\<bar> = \<bar>sgn x\<bar> * (\<bar>f - y\<bar> / 10 ^ n)"
    by (simp add: abs_mult)
  also have "\<dots> \<le> 1 * (\<bar>f - y\<bar> / 10 ^ n)"
    by (intro mult_right_mono) (auto simp: sgn_if)
  also have "\<dots> = \<bar>f - y\<bar> / 10 ^ n"
    by simp
  also have "\<dots> \<le> (1 / 2) / 10 ^ n"
    using d by (intro divide_right_mono) simp_all
  finally show ?thesis by simp
qed

text \<open>
  C6: the total of every surviving row is quantity times unit price under the one rule
  \<open>round_half_up 2\<close>: a multiple of one hundredth, at most half a hundredth away, a tie
  going away from zero; 3 times 10.005 gives 30.02.
\<close>

theorem valor_total_arredondado:
  "map valor_total (res_df df0) =
     map (\<lambda>r. map_option (round_half_up 2) (vezes (qtd_vendida r) (preco_venda r)))
       (filter data_valida df0)
   \<and> (\<exists>k::int. round_half_up 2 x = of_int k / 100)
   \<and> \<bar>round_half_up 2 x - x\<bar> \<le> 1 / 200
   \<and> vezes (Some 3) (Some (10005 / 1000)) = Some (30015 / 1000)
   \<and> round_half_up 2 (30015 / 1000) = 3002 / 100"
proof -
  have a: "map valor_total (res_df df0) =
     map (\<lambda>r. map_option (round_half_up 2) (vezes (qtd_vendida r) (preco_venda r)))
       (filter data_valida df0)"
    by (simp add: res_df_eq limpa_campos)
  have b: "\<exists>k::int. round_half_up 2 x = of_int k / 100"
    using round_half_up_grid [of 2 x] by simp
  have c: "\<bar>round_half_up 2 x - x\<bar> \<le> 1 / 200"
    using round_half_up_near [of 2 x] by simp
  have d: "vezes (Some 3) (Some (10005 / 1000)) = Some (30015 / 1000)"
    by (simp add: vezes_def)
  have e: "round_half_up 2 (30015 / 1000) = 3002 / 100"
    by (simp add: round_half_up_def)
  from a b c d e show ?thesis by blast
qed

theorem valor_total_arredondado_witness:
  "map qtd_vendida ex_idades = [Some 3, Some 3, Some 3, Some 3]
   \<and> map preco_venda ex_idades =
       [Some (10005 / 1000), Some (10005 / 1000), Some (10005 / 1000), Some (10005 / 1000)]
   \<and> map valor_total (res_df ex_idades) =
       [Some (3002 / 100), Some (3002 / 100), Some (3002 / 100), Some (3002 / 100)]"
proof -
  have "map valor_total (res_df ex_idades) =
     map (\<lambda>r. map_option (round_half_up 2) (vezes (qtd_vendida r) (preco_venda r))) ex_idades"
    and "round_half_up 2 (30015 / 1000) = 3002 / 100"
    using valor_total_arredondado [of ex_idades 0]
    by (simp_all add: ex_idades_validas)
  then show ?thesis
    by (simp add: ex_idades_def linha_exemplo_def vezes_def)
qed

section \<open>Independence of the order of the rows\<close>

lemma remdups_mset_cong: "set xs = set ys \<Longrightarrow> mset (remdups xs) = mset (remdups ys)"
  by (metis distinct_remdups mset_set_set set_remdups)

lemma res_df_mset_cong:
  assumes "mset df = mset df'"
  shows "mset (res_df df) = mset (res_df df')"
proof -
  have "valor_idade df = valor_idade df'"
    using assms by (rule valor_idade_mset_cong)
  moreover have "mset (filter data_valida df) = mset (filter data_valida df')"
    using assms by simp
  then have "mset (map (limpa v) (filter data_valida df)) = mset (map (limpa v) (filter data_valida df'))" for v
    by (simp only: mset_map)
  ultimately show ?thesis
    by (simp only: res_df_eq)
qed

text \<open>
  C7: two datasets with the same rows, in any order and held in any partitions, give the
  same four dimension datasets and the same cleansed dataset, as multisets of rows.
\<close>

theorem transformar_dados_ordem:
  assumes "mset (concat ps) = mset (concat qs)"
  shows "mset (res_dim_cliente (concat ps)) = mset (res_dim_cliente (concat qs))
       \<and> mset (res_dim_produto (concat ps)) = mset (res_dim_produto (concat qs))
       \<and> mset (res_dim_localidade (concat ps)) = mset (res_dim_localidade (concat qs))
       \<and> mset (res_dim_tempo (concat ps)) = mset (res_dim_tempo (concat qs))
       \<and> mset (res_df (concat ps)) = mset (res_df (concat qs))"
proof -
  have m: "mset (res_df (concat ps)) = mset (res_df (concat qs))"
    using assms by (rule res_df_mset_cong)
  then have s: "set (res_df (concat ps)) = set (res_df (concat qs))"
    by (rule mset_eq_setD)
  have "mset (remdups (map f (res_df (concat ps)))) = mset (remdups (map f (res_df (concat qs))))" for f :: "linha_total \<Rightarrow> 'b"
    by (rule remdups_mset_cong) (simp add: s)
  note r = this
  have "mset (map com_calendario (remdups (map data_venda (res_df (concat ps))))) =
        mset (map com_calendario (remdups (map data_venda (res_df (concat qs)))))"
    using r [of data_venda] by (simp only: mset_map)
  with m r [of sel_cliente] r [of sel_produto] r [of sel_localidade] show ?thesis
    by (simp only: res_dim_cliente_eq res_dim_produto_eq res_dim_localidade_eq res_dim_tempo_eq)
qed

theorem transformar_dados_ordem_witness:
  "concat ex_particoes_a \<noteq> concat ex_particoes_b
   \<and> mset (res_dim_cliente (concat ex_particoes_a)) = mset (res_dim_cliente (concat ex_particoes_b))
   \<and> mset (res_dim_produto (concat ex_particoes_a)) = mset (res_dim_produto (concat ex_particoes_b))
   \<and> mset (res_dim_localidade (concat ex_particoes_a)) = mset (res_dim_localidade (concat ex_particoes_b))
   \<and> mset (res_dim_tempo (concat ex_particoes_a)) = mset (res_dim_tempo (concat ex_particoes_b))
   \<and> mset (res_df (concat ex_particoes_a)) = mset (res_df (concat ex_particoes_b))"
proof -
  have h: "mset (concat ex_particoes_a) = mset (concat ex_particoes_b)"
    by (simp add: ex_particoes_a_def ex_particoes_b_def ex_cinco_def)
  have d: "concat ex_particoes_a \<noteq> concat ex_particoes_b"
    by (simp add: ex_particoes_a_def ex_particoes_b_def ex_cinco_def linha_exemplo_def)
  from transformar_dados_ordem [OF h] d show ?thesis by simp
qed

section \<open>The order of the loader\<close>

lemma acessos_carregar_dados:
  "acessos (carregar_dados dc dp dl dt df w) =
     acessos w @
     [Write Tab_dim_cliente Overwrite, Write Tab_dim_produto Overwrite,
      Write Tab_dim_localidade Overwrite, Write Tab_dim_tempo Overwrite,
      Read Tab_dim_cliente, Read Tab_dim_produto, Read Tab_dim_localidade, Read Tab_dim_tempo,
      Write Tab_fato_vendas Overwrite]"
  by (simp add: carregar_dados_def write_dim_cliente_def write_dim_produto_def
      write_dim_localidade_def write_dim_tempo_def read_dim_cliente_def read_dim_produto_def
      read_dim_localidade_def read_dim_tempo_def write_fato_vendas_def Let_def)

lemma tabelas_carregar_dados:
  "tab_dim_cliente (carregar_dados dc dp dl dt df w) = dc"
  "tab_dim_produto (carregar_dados dc dp dl dt df w) = dp"
  "tab_dim_localidade (carregar_dados dc dp dl dt df w) = dl"
  "tab_dim_tempo (carregar_dados dc dp dl dt df w) = dt"
  "tab_fato_vendas (carregar_dados dc dp dl dt df w) =
     fato_vendas_de df (sk_dim_cliente dc) (sk_dim_produto dp) (sk_dim_localidade dl)
       (sk_dim_tempo dt)"
  by (simp_all add: carregar_dados_def write_dim_cliente_def write_dim_produto_def
      write_dim_localidade_def write_dim_tempo_def read_dim_cliente_def read_dim_produto_def
      read_dim_localidade_def read_dim_tempo_def write_fato_vendas_def Let_def gravar_def)

lemma main_eq:
  "main df0 w =
     carregar_dados (res_dim_cliente df0) (res_dim_produto df0) (res_dim_localidade df0)
       (res_dim_tempo df0) (res_df df0) w"
  by (simp add: main_def transformar_dados_eq)

text \<open>
  C8: whatever the warehouse held, \<^verbatim>\<open>carregar_dados\<close> writes the four dimension
  tables in overwrite mode, then reads the four back, then writes the fact table in
  overwrite mode; afterwards every table holds the dataset written and nothing else, the
  fact rows resolved against the keys of the dimensions just written.
\<close>

theorem carregar_dados_ordem:
  "acessos (carregar_dados dc dp dl dt df w) =
     acessos w @
     [Write Tab_dim_cliente Overwrite, Write Tab_dim_produto Overwrite,
      Write Tab_dim_localidade Overwrite, Write Tab_dim_tempo Overwrite,
      Read Tab_dim_cliente, Read Tab_dim_produto, Read Tab_dim_localidade, Read Tab_dim_tempo,
      Write Tab_fato_vendas Overwrite]
   \<and> tab_dim_cliente (carregar_dados dc dp dl dt df w) = dc
   \<and> tab_dim_produto (carregar_dados dc dp dl dt df w) = dp
   \<and> tab_dim_localidade (carregar_dados dc dp dl dt df w) = dl
   \<and> tab_dim_tempo (carregar_dados dc dp dl dt df w) = dt
   \<and> tab_fato_vendas (carregar_dados dc dp dl dt df w) =
       fato_vendas_de df (sk_dim_cliente dc) (sk_dim_produto dp) (sk_dim_localidade dl)
         (sk_dim_tempo dt)"
  by (simp only: acessos_carregar_dados tabelas_carregar_dados simp_thms)

theorem carregar_dados_ordem_witness:
  "length (tab_dim_cliente dw_anterior) = 4
   \<and> length (tab_fato_vendas dw_anterior) = 4
   \<and> length (acessos dw_anterior) = 9
   \<and> drop 9 (acessos (main ex_chave_repetida dw_anterior)) =
       [Write Tab_dim_cliente Overwrite, Write Tab_dim_produto Overwrite,
        Write Tab_dim_localidade Overwrite, Write Tab_dim_tempo Overwrite,
        Read Tab_dim_cliente, Read Tab_dim_produto, Read Tab_dim_localidade,
        Read Tab_dim_tempo, Write Tab_fato_vendas Overwrite]
   \<and> tab_dim_cliente (main ex_chave_repetida dw_anterior) = res_dim_cliente ex_chave_repetida
   \<and> length (tab_dim_cliente (main ex_chave_repetida dw_anterior)) = 2"
proof -
  have a: "length (tab_dim_cliente dw_anterior) = 4"
    by code_simp
  have b: "length (tab_fato_vendas dw_anterior) = 4"
    by code_simp
  have c: "length (acessos dw_anterior) = 9"
    by code_simp
  have d: "length (res_dim_cliente ex_chave_repetida) = 2"
    by code_simp
  note t = carregar_dados_ordem [of "res_dim_cliente ex_chave_repetida"
      "res_dim_produto ex_chave_repetida" "res_dim_localidade ex_chave_repetida"
      "res_dim_tempo ex_chave_repetida" "res_df ex_chave_repetida" dw_anterior]
  from t a b c d show ?thesis
    by (simp add: main_eq)
qed

section \<open>The date filter\<close>

lemma fato_vendas_de_origem:
  assumes "f \<in> set (fato_vendas_de df dcs dps dls dts)"
  shows "\<exists>r\<in>set df. fv_id_venda f = id_venda r \<and> fv_qtd_vendida f = qtd_vendida r
           \<and> fv_preco_venda f = preco_venda r \<and> fv_valor_total f = valor_total r
           \<and> fv_custo_compra_unitario f = custo_compra_unitario r"
  using assms by (auto simp: fato_vendas_de_def join_def Let_def)

text \<open>
  C5: the cleansed dataset is the row-wise image of exactly the rows whose sale date
  parses; the rows removed are those whose date does not parse; every dimension row is
  the projection of a surviving row and every fact row carries the sale of a surviving
  row. Of five rows with one date that does not parse, four remain.
\<close>

theorem so_datas_invalidas_saem:
  "res_df df0 = map (limpa (valor_idade df0)) (filter data_valida df0)
   \<and> length (res_df df0) + length (filter (\<lambda>r. to_date (data_venda r) = None) df0) = length df0
   \<and> set (res_dim_cliente df0) = sel_cliente ` set (res_df df0)
   \<and> set (res_dim_produto df0) = sel_produto ` set (res_df df0)
   \<and> set (res_dim_localidade df0) = sel_localidade ` set (res_df df0)
   \<and> set (res_dim_tempo df0) = (\<lambda>r. com_calendario (data_venda r)) ` set (res_df df0)
   \<and> (\<forall>f\<in>set (fato_vendas_de (res_df df0) dcs dps dls dts).
         \<exists>r\<in>set (filter data_valida df0).
           fv_id_venda f = id_venda r \<and> fv_qtd_vendida f = qtd_vendida r
           \<and> fv_preco_venda f = preco_venda r)"
proof -
  have a: "res_df df0 = map (limpa (valor_idade df0)) (filter data_valida df0)"
    by (rule res_df_eq)
  have "length (filter data_valida df0) + length (filter (\<lambda>r. \<not> data_valida r) df0) = length df0"
    by (rule sum_length_filter_compl)
  then have b: "length (res_df df0) + length (filter (\<lambda>r. to_date (data_venda r) = None) df0) = length df0"
    by (simp add: a data_valida_def)
  have c: "set (res_dim_cliente df0) = sel_cliente ` set (res_df df0)"
    "set (res_dim_produto df0) = sel_produto ` set (res_df df0)"
    "set (res_dim_localidade df0) = sel_localidade ` set (res_df df0)"
    "set (res_dim_tempo df0) = (\<lambda>r. com_calendario (data_venda r)) ` set (res_df df0)"
    by (simp_all add: res_dim_cliente_eq res_dim_produto_eq res_dim_localidade_eq
        res_dim_tempo_eq image_image)
  have d: "\<forall>f\<in>set (fato_vendas_de (res_df df0) dcs dps dls dts).
         \<exists>r\<in>set (filter data_valida df0).
           fv_id_venda f = id_venda r \<and> fv_qtd_vendida f = qtd_vendida r
           \<and> fv_preco_venda f = preco_venda r"
  proof
    fix f assume "f \<in> set (fato_vendas_de (res_df df0) dcs dps dls dts)"
    from fato_vendas_de_origem [OF this] obtain r' where "r' \<in> set (res_df df0)"
      and f: "fv_id_venda f = id_venda r'" "fv_qtd_vendida f = qtd_vendida r'"
        "fv_preco_venda f = preco_venda r'"
      by blast
    then obtain r where "r \<in> set (filter data_valida df0)" and "r' = limpa (valor_idade df0) r"
      unfolding a by auto
    with f show "\<exists>r\<in>set (filter data_valida df0).
           fv_id_venda f = id_venda r \<and> fv_qtd_vendida f = qtd_vendida r
           \<and> fv_preco_venda f = preco_venda r"
      by (auto simp: limpa_campos)
  qed
  from a b c d show ?thesis by blast
qed

theorem so_datas_invalidas_saem_witness:
  "length ex_cinco = 5
   \<and> map (\<lambda>r. to_date (data_venda r)) ex_cinco =
       [Some (Date 2024 1 15), Some (Date 2024 1 16), None, Some (Date 2024 1 16),
        Some (Date 2024 3 1)]
   \<and> length (res_df ex_cinco) = 4
   \<and> map id_venda (res_df ex_cinco) = [Some 1, Some 2, Some 4, Some 5]
   \<and> map dc_id_cliente (res_dim_cliente ex_cinco) = [Some 1, Some 2, Some 4, Some 5]
   \<and> map dt_data_venda (res_dim_tempo ex_cinco) =
       [Some (Date 2024 1 15), Some (Date 2024 1 16), Some (Date 2024 3 1)]
   \<and> map fv_id_venda (tab_fato_vendas (main ex_cinco dw_vazio)) = [Some 1, Some 2, Some 4, Some 5]"
proof -
  have a: "length ex_cinco = 5"
    by (simp add: ex_cinco_def)
  have b: "map (\<lambda>r. to_date (data_venda r)) ex_cinco =
       [Some (Date 2024 1 15), Some (Date 2024 1 16), None, Some (Date 2024 1 16),
        Some (Date 2024 3 1)]"
    by code_simp
  have c: "length (filter (\<lambda>r. to_date (data_venda r) = None) ex_cinco) = 1"
    by code_simp
  from so_datas_invalidas_saem [of ex_cinco "[]" "[]" "[]" "[]"]
  have "length (res_df ex_cinco) + length (filter (\<lambda>r. to_date (data_venda r) = None) ex_cinco) =
        length ex_cinco"
    by blast
  with a c have d: "length (res_df ex_cinco) = 4"
    by simp
  have e: "map id_venda (res_df ex_cinco) = [Some 1, Some 2, Some 4, Some 5]"
    by code_simp
  have f: "map dc_id_cliente (res_dim_cliente ex_cinco) = [Some 1, Some 2, Some 4, Some 5]"
    by code_simp
  have g: "map dt_data_venda (res_dim_tempo ex_cinco) =
       [Some (Date 2024 1 15), Some (Date 2024 1 16), Some (Date 2024 3 1)]"
    by code_simp
  have h: "map fv_id_venda (tab_fato_vendas (main ex_cinco dw_vazio)) = [Some 1, Some 2, Some 4, Some 5]"
    by code_simp
  from a b d e f g h show ?thesis by blast
qed

section \<open>Natural keys of the dimensions\<close>

lemma distinct_key_remdups:
  "distinct (map k (remdups (map sel xs))) \<longleftrightarrow>
     (\<forall>r\<in>set xs. \<forall>s\<in>set xs. k (sel r) = k (sel s) \<longrightarrow> sel r = sel s)"
  by (auto simp: distinct_map inj_on_def)

lemma dt_data_venda_res_dim_tempo:
  "map dt_data_venda (res_dim_tempo df0) = remdups (map data_venda (res_df df0))"
  by (simp add: res_dim_tempo_eq com_calendario_def comp_def)

text \<open>
  C2, as amended: no dimension dataset holds the same row twice, and the time dimension
  holds every sale date once. The customer, product and location dimensions hold a
  natural key once exactly when the cleansed rows that share that key agree on every
  column of the dimension.
\<close>

theorem chaves_naturais_das_dimensoes:
  "distinct (res_dim_cliente df0) \<and> distinct (res_dim_produto df0)
   \<and> distinct (res_dim_localidade df0)
   \<and> distinct (map dt_data_venda (res_dim_tempo df0))
   \<and> (distinct (map dc_id_cliente (res_dim_cliente df0)) \<longleftrightarrow>
        (\<forall>r\<in>set (res_df df0). \<forall>s\<in>set (res_df df0).
           id_cliente r = id_cliente s \<longrightarrow> sel_cliente r = sel_cliente s))
   \<and> (distinct (map dp_id_produto (res_dim_produto df0)) \<longleftrightarrow>
        (\<forall>r\<in>set (res_df df0). \<forall>s\<in>set (res_df df0).
           id_produto r = id_produto s \<longrightarrow> sel_produto r = sel_produto s))
   \<and> (distinct (map dl_id_localidade (res_dim_localidade df0)) \<longleftrightarrow>
        (\<forall>r\<in>set (res_df df0). \<forall>s\<in>set (res_df df0).
           id_localidade r = id_localidade s \<longrightarrow> sel_localidade r = sel_localidade s))"
proof -
  have a: "distinct (res_dim_cliente df0)" "distinct (res_dim_produto df0)"
    "distinct (res_dim_localidade df0)"
    by (simp_all add: res_dim_cliente_eq res_dim_produto_eq res_dim_localidade_eq)
  have b: "distinct (map dt_data_venda (res_dim_tempo df0))"
    by (simp add: dt_data_venda_res_dim_tempo)
  have c: "distinct (map dc_id_cliente (res_dim_cliente df0)) \<longleftrightarrow>
        (\<forall>r\<in>set (res_df df0). \<forall>s\<in>set (res_df df0).
           id_cliente r = id_cliente s \<longrightarrow> sel_cliente r = sel_cliente s)"
    using distinct_key_remdups [of dc_id_cliente sel_cliente "res_df df0"]
    by (simp add: res_dim_cliente_eq) (simp add: sel_cliente_def)
  have d: "distinct (map dp_id_produto (res_dim_produto df0)) \<longleftrightarrow>
        (\<forall>r\<in>set (res_df df0). \<forall>s\<in>set (res_df df0).
           id_produto r = id_produto s \<longrightarrow> sel_produto r = sel_produto s)"
    using distinct_key_remdups [of dp_id_produto sel_produto "res_df df0"]
    by (simp add: res_dim_produto_eq) (simp add: sel_produto_def)
  have e: "distinct (map dl_id_localidade (res_dim_localidade df0)) \<longleftrightarrow>
        (\<forall>r\<in>set (res_df df0). \<forall>s\<in>set (res_df df0).
           id_localidade r = id_localidade s \<longrightarrow> sel_localidade r = sel_localidade s)"
    using distinct_key_remdups [of dl_id_localidade sel_localidade "res_df df0"]
    by (simp add: res_dim_localidade_eq) (simp add: sel_localidade_def)
  from a b c d e show ?thesis by blast
qed

theorem chaves_naturais_das_dimensoes_witness:
  "map id_cliente (res_df ex_cinco) = [Some 1, Some 2, Some 4, Some 5]
   \<and> map id_produto (res_df ex_cinco) = [Some 7, Some 7, Some 7, Some 7]
   \<and> distinct (map dc_id_cliente (res_dim_cliente ex_cinco))
   \<and> distinct (map dp_id_produto (res_dim_produto ex_cinco))
   \<and> distinct (map dl_id_localidade (res_dim_localidade ex_cinco))
   \<and> distinct (map dt_data_venda (res_dim_tempo ex_cinco))"
proof -
  have h: "\<forall>r\<in>set (res_df ex_cinco). \<forall>s\<in>set (res_df ex_cinco).
           id_cliente r = id_cliente s \<longrightarrow> sel_cliente r = sel_cliente s"
    "\<forall>r\<in>set (res_df ex_cinco). \<forall>s\<in>set (res_df ex_cinco).
           id_produto r = id_produto s \<longrightarrow> sel_produto r = sel_produto s"
    "\<forall>r\<in>set (res_df ex_cinco). \<forall>s\<in>set (res_df ex_cinco).
           id_localidade r = id_localidade s \<longrightarrow> sel_localidade r = sel_localidade s"
    by code_simp+
  have a: "map id_cliente (res_df ex_cinco) = [Some 1, Some 2, Some 4, Some 5]"
    "map id_produto (res_df ex_cinco) = [Some 7, Some 7, Some 7, Some 7]"
    by code_simp+
  from chaves_naturais_das_dimensoes [of ex_cinco] h a show ?thesis
    by blast
qed

text \<open>
  \<^verbatim>\<open>distinct()\<close> compares whole rows: a customer id extracted with two names stays
  twice in the customer dimension.
\<close>

theorem chaves_naturais_das_dimensoes_counterexample:
  "map (\<lambda>r. (id_cliente r, nome_cliente r)) ex_chave_repetida =
     [(Some 1, Some ''Ana''), (Some 1, Some ''Ana B'')]
   \<and> map (\<lambda>d. (dc_id_cliente d, dc_nome_cliente d)) (res_dim_cliente ex_chave_repetida) =
     [(Some 1, Some ''Ana''), (Some 1, Some ''Ana B'')]
   \<and> \<not> distinct (map dc_id_cliente (res_dim_cliente ex_chave_repetida))"
  by code_simp

section \<open>Key resolution and the number of fact rows\<close>

lemma join_Cons:
  "join ka kb (x # xs) ys =
     map (Pair x) (filter (\<lambda>y. ka x \<noteq> None \<and> ka x = kb y) ys) @ join ka kb xs ys"
proof -
  have "concat (map (\<lambda>y. if P y then [(x, y)] else []) ys) = map (Pair x) (filter P ys)"
    for P :: "'b \<Rightarrow> bool"
    by (induction ys) simp_all
  then show ?thesis
    by (simp add: join_def)
qed

lemma filter_key_distinct:
  assumes "distinct (map kb ys)"
  shows "length (filter (\<lambda>y. k = kb y) ys) = (if k \<in> set (map kb ys) then 1 else 0)"
  using assms by (induction ys) auto

lemma join_fst:
  assumes "distinct (map kb ys)"
  shows "map fst (join ka kb xs ys) = filter (\<lambda>x. casa (ka x) (map kb ys)) xs"
proof (induction xs)
  case Nil
  show ?case by (simp add: join_def)
next
  case (Cons x xs)
  have "map fst (map (Pair x) (filter (\<lambda>y. ka x \<noteq> None \<and> ka x = kb y) ys)) =
        (if casa (ka x) (map kb ys) then [x] else [])"
  proof (cases "ka x = None")
    case True
    then show ?thesis by (simp add: casa_def)
  next
    case False
    have "map fst (map (Pair x) (filter (\<lambda>y. ka x = kb y) ys)) =
            replicate (length (filter (\<lambda>y. ka x = kb y) ys)) x"
      by (simp add: comp_def map_replicate_const)
    with False show ?thesis
      by (simp add: casa_def filter_key_distinct [OF assms] del: not_None_eq)
  qed
  with Cons.IH show ?case
    by (simp add: join_Cons del: not_None_eq)
qed

lemma map_fst_filter: "map fst (filter (\<lambda>z. P (fst z)) zs) = filter P (map fst zs)"
  by (induction zs) simp_all

lemma fato_vendas_de_linhas:
  assumes "distinct (map dc_id_cliente dcs)" and "distinct (map dp_id_produto dps)"
    and "distinct (map dl_id_localidade dls)" and "distinct (map dt_data_venda dts)"
  shows "\<exists>j :: linha_resolvida list.
          fato_vendas_de df dcs dps dls dts =
            map (\<lambda>((((r, c), p), l), t).
              \<lparr>fv_sk_cliente = sk_cliente c, fv_sk_produto = sk_produto p,
               fv_sk_localidade = sk_localidade l, fv_sk_tempo = sk_tempo t,
               fv_id_venda = id_venda r, fv_qtd_vendida = qtd_vendida r,
               fv_preco_venda = preco_venda r, fv_valor_total = valor_total r,
               fv_custo_compra_unitario = custo_compra_unitario r\<rparr>) j
          \<and> map (\<lambda>((((r, c), p), l), t). r) j = filter (chaves_resolvidas dcs dps dls dts) df"
proof -
  define j1 where "j1 = join id_cliente dc_id_cliente df dcs"
  define j2 where "j2 = join (\<lambda>(r, c). id_produto r) dp_id_produto j1 dps"
  define j3 where "j3 = join (\<lambda>((r, c), p). id_localidade r) dl_id_localidade j2 dls"
  define j4 where "j4 = join (\<lambda>(((r, c), p), l). data_venda r) dt_data_venda j3 dts"
  have 1: "map fst j1 = filter (\<lambda>r. casa (id_cliente r) (map dc_id_cliente dcs)) df"
    unfolding j1_def by (rule join_fst [OF assms(1)])
  have "map fst j2 = filter (\<lambda>z. casa (id_produto (fst z)) (map dp_id_produto dps)) j1"
    unfolding j2_def by (simp add: join_fst [OF assms(2)] case_prod_beta)
  then have 2: "map fst (map fst j2) =
      filter (\<lambda>r. casa (id_produto r) (map dp_id_produto dps)) (map fst j1)"
    using map_fst_filter [of "\<lambda>r. casa (id_produto r) (map dp_id_produto dps)" j1]
    by simp
  have "map fst j3 = filter (\<lambda>z. casa (id_localidade (fst (fst z))) (map dl_id_localidade dls)) j2"
    unfolding j3_def by (simp add: join_fst [OF assms(3)] case_prod_beta)
  then have "map fst (map fst j3) =
      filter (\<lambda>z. casa (id_localidade (fst z)) (map dl_id_localidade dls)) (map fst j2)"
    using map_fst_filter [of "\<lambda>z. casa (id_localidade (fst z)) (map dl_id_localidade dls)" j2]
    by simp
  then have 3: "map fst (map fst (map fst j3)) =
      filter (\<lambda>r. casa (id_localidade r) (map dl_id_localidade dls)) (map fst (map fst j2))"
    using map_fst_filter [of "\<lambda>r. casa (id_localidade r) (map dl_id_localidade dls)" "map fst j2"]
    by simp
  have "map fst j4 = filter (\<lambda>z. casa (data_venda (fst (fst (fst z)))) (map dt_data_venda dts)) j3"
    unfolding j4_def by (simp add: join_fst [OF assms(4)] case_prod_beta)
  then have "map fst (map fst j4) =
      filter (\<lambda>z. casa (data_venda (fst (fst z))) (map dt_data_venda dts)) (map fst j3)"
    using map_fst_filter [of "\<lambda>z. casa (data_venda (fst (fst z))) (map dt_data_venda dts)" j3]
    by simp
  then have "map fst (map fst (map fst j4)) =
      filter (\<lambda>z. casa (data_venda (fst z)) (map dt_data_venda dts)) (map fst (map fst j3))"
    using map_fst_filter [of "\<lambda>z. casa (data_venda (fst z)) (map dt_data_venda dts)" "map fst j3"]
    by simp
  then have 4: "map fst (map fst (map fst (map fst j4))) =
      filter (\<lambda>r. casa (data_venda r) (map dt_data_venda dts)) (map fst (map fst (map fst j3)))"
    using map_fst_filter [of "\<lambda>r. casa (data_venda r) (map dt_data_venda dts)"
        "map fst (map fst j3)"]
    by simp
  have "map (\<lambda>((((r, c), p), l), t). r) j4 = map fst (map fst (map fst (map fst j4)))"
    by (simp add: case_prod_beta)
  also have "\<dots> = filter (chaves_resolvidas dcs dps dls dts) df"
    unfolding 4 3 2 1 by (auto simp: chaves_resolvidas_def intro: filter_cong)
  finally have a: "map (\<lambda>((((r, c), p), l), t). r) j4 = filter (chaves_resolvidas dcs dps dls dts) df" .
  have b: "fato_vendas_de df dcs dps dls dts =
            map (\<lambda>((((r, c), p), l), t).
              \<lparr>fv_sk_cliente = sk_cliente c, fv_sk_produto = sk_produto p,
               fv_sk_localidade = sk_localidade l, fv_sk_tempo = sk_tempo t,
               fv_id_venda = id_venda r, fv_qtd_vendida = qtd_vendida r,
               fv_preco_venda = preco_venda r, fv_valor_total = valor_total r,
               fv_custo_compra_unitario = custo_compra_unitario r\<rparr>) j4"
    by (simp add: fato_vendas_de_def Let_def j1_def j2_def j3_def j4_def)
  show ?thesis
    by (rule exI [of _ j4]) (simp only: a b simp_thms)
qed


lemma fato_vendas_de_medidas:
  assumes "distinct (map dc_id_cliente dcs)" and "distinct (map dp_id_produto dps)"
    and "distinct (map dl_id_localidade dls)" and "distinct (map dt_data_venda dts)"
  shows "map (\<lambda>f. (fv_id_venda f, fv_qtd_vendida f, fv_preco_venda f, fv_valor_total f,
                 fv_custo_compra_unitario f)) (fato_vendas_de df dcs dps dls dts) =
         map (\<lambda>r. (id_venda r, qtd_vendida r, preco_venda r, valor_total r,
                 custo_compra_unitario r)) (filter (chaves_resolvidas dcs dps dls dts) df)"
proof -
  from fato_vendas_de_linhas [OF assms, of df] obtain j :: "linha_resolvida list" where
    f: "fato_vendas_de df dcs dps dls dts =
            map (\<lambda>((((r, c), p), l), t).
              \<lparr>fv_sk_cliente = sk_cliente c, fv_sk_produto = sk_produto p,
               fv_sk_localidade = sk_localidade l, fv_sk_tempo = sk_tempo t,
               fv_id_venda = id_venda r, fv_qtd_vendida = qtd_vendida r,
               fv_preco_venda = preco_venda r, fv_valor_total = valor_total r,
               fv_custo_compra_unitario = custo_compra_unitario r\<rparr>) j"
    and j: "map (\<lambda>((((r, c), p), l), t). r) j = filter (chaves_resolvidas dcs dps dls dts) df"
    by blast
  have "map (\<lambda>f. (fv_id_venda f, fv_qtd_vendida f, fv_preco_venda f, fv_valor_total f,
                 fv_custo_compra_unitario f)) (fato_vendas_de df dcs dps dls dts) =
        map (\<lambda>r. (id_venda r, qtd_vendida r, preco_venda r, valor_total r,
                 custo_compra_unitario r)) (map (\<lambda>((((r, c), p), l), t). r) j)"
    unfolding f by (simp add: case_prod_beta)
  then show ?thesis
    by (simp only: j)
qed

lemma length_filter_eq_iff: "length (filter P xs) = length xs \<longleftrightarrow> (\<forall>x\<in>set xs. P x)"
  by (metis filter_id_conv length_filter_le length_filter_less less_le_not_le order_le_less filter_True)

text \<open>
  C1, as amended: when no two rows of a dimension read back share a natural key, the
  fact rows are the candidate rows whose four keys are resolved, one fact row for each,
  with the measures of the candidate; so there are at most as many fact rows as
  candidates, and as many exactly when every candidate has its four keys resolved. A
  candidate without a match is left out; nothing fails.
\<close>

theorem fato_vendas_contagem:
  assumes "distinct (map dc_id_cliente dcs)" and "distinct (map dp_id_produto dps)"
    and "distinct (map dl_id_localidade dls)" and "distinct (map dt_data_venda dts)"
  shows "length (fato_vendas_de df dcs dps dls dts) \<le> length df
       \<and> (length (fato_vendas_de df dcs dps dls dts) = length df
            \<longleftrightarrow> (\<forall>r\<in>set df. chaves_resolvidas dcs dps dls dts r))
       \<and> map (\<lambda>f. (fv_id_venda f, fv_qtd_vendida f, fv_preco_venda f, fv_valor_total f,
                 fv_custo_compra_unitario f)) (fato_vendas_de df dcs dps dls dts) =
         map (\<lambda>r. (id_venda r, qtd_vendida r, preco_venda r, valor_total r,
                 custo_compra_unitario r)) (filter (chaves_resolvidas dcs dps dls dts) df)"
proof -
  note m = fato_vendas_de_medidas [OF assms, of df]
  from m have "length (fato_vendas_de df dcs dps dls dts) =
               length (filter (chaves_resolvidas dcs dps dls dts) df)"
    by (rule map_eq_imp_length_eq)
  with m show ?thesis
    by (simp only: length_filter_eq_iff length_filter_le simp_thms)
qed

theorem fato_vendas_contagem_witness:
  "map id_cliente (res_df ex_cinco) = [Some 1, Some 2, Some 4, Some 5]
   \<and> map dc_id_cliente (sk_dim_cliente (res_dim_cliente ex_idades)) =
       [Some 1, Some 2, Some 3, Some 4]
   \<and> map fv_id_venda
       (fato_vendas_de (res_df ex_cinco) (sk_dim_cliente (res_dim_cliente ex_idades))
         (sk_dim_produto (res_dim_produto ex_idades))
         (sk_dim_localidade (res_dim_localidade ex_idades))
         (sk_dim_tempo (res_dim_tempo ex_idades))) = [Some 1, Some 2, Some 4]
   \<and> length
       (fato_vendas_de (res_df ex_cinco) (sk_dim_cliente (res_dim_cliente ex_idades))
         (sk_dim_produto (res_dim_produto ex_idades))
         (sk_dim_localidade (res_dim_localidade ex_idades))
         (sk_dim_tempo (res_dim_tempo ex_idades))) \<le> length (res_df ex_cinco)"
proof -
  have h: "distinct (map dc_id_cliente (sk_dim_cliente (res_dim_cliente ex_idades)))"
    "distinct (map dp_id_produto (sk_dim_produto (res_dim_produto ex_idades)))"
    "distinct (map dl_id_localidade (sk_dim_localidade (res_dim_localidade ex_idades)))"
    "distinct (map dt_data_venda (sk_dim_tempo (res_dim_tempo ex_idades)))"
    by code_simp+
  have a: "map id_cliente (res_df ex_cinco) = [Some 1, Some 2, Some 4, Some 5]"
    by code_simp
  have b: "map dc_id_cliente (sk_dim_cliente (res_dim_cliente ex_idades)) =
       [Some 1, Some 2, Some 3, Some 4]"
    by code_simp
  have c: "map fv_id_venda
       (fato_vendas_de (res_df ex_cinco) (sk_dim_cliente (res_dim_cliente ex_idades))
         (sk_dim_produto (res_dim_produto ex_idades))
         (sk_dim_localidade (res_dim_localidade ex_idades))
         (sk_dim_tempo (res_dim_tempo ex_idades))) = [Some 1, Some 2, Some 4]"
    by code_simp
  from fato_vendas_contagem [OF h, of "res_df ex_cinco"] a b c show ?thesis
    by blast
qed

text \<open>
  Without that condition the count is not bounded: a customer id extracted with two names
  gives two customer rows with the same natural key, and each of the two candidates
  matches both.
\<close>

theorem fato_vendas_contagem_counterexample:
  "length (res_df ex_chave_repetida) = 2
   \<and> length (tab_fato_vendas (main ex_chave_repetida dw_vazio)) = 4
   \<and> \<not> length
         (fato_vendas_de (res_df ex_chave_repetida)
           (sk_dim_cliente (res_dim_cliente ex_chave_repetida))
           (sk_dim_produto (res_dim_produto ex_chave_repetida))
           (sk_dim_localidade (res_dim_localidade ex_chave_repetida))
           (sk_dim_tempo (res_dim_tempo ex_chave_repetida)))
       \<le> length (res_df ex_chave_repetida)"
  by code_simp

end
